theory Spec2Isabelle
  imports
    Main
    "HOL-Library.Word"
    "HOL-Library.Char_ord"
    "HOL-Library.List_Lexorder"
    "HOL-Library.Multiset"
    "HOL-Library.AList"
begin

unbundle bit_operations_syntax

section \<open>Data model\<close>

text \<open>
  Go strings are byte sequences and \<open>string\<close> is a list of 8-bit characters; with
  \<open>Char_ord\<close> and \<open>List_Lexorder\<close> the order \<open><\<close> on \<open>string\<close> is the bytewise
  lexicographic order of Go's \<open><\<close> on strings.

  A \<open>float64\<close> is its IEEE 754 binary64 bit pattern. Go's \<open>==\<close> on \<open>float64\<close> is
  the IEEE comparison: a NaN is equal to nothing (not even itself), and the two zeros
  are equal to each other; every other value is equal to exactly its own bit pattern.
\<close>

type_synonym float64 = "64 word"
type_synonym uint32 = "32 word"
type_synonym int64 = "64 word"

definition isNaN :: "float64 \<Rightarrow> bool" where
  "isNaN x \<longleftrightarrow> 0x7FF0000000000000 < (x AND 0x7FFFFFFFFFFFFFFF)"

definition isZero :: "float64 \<Rightarrow> bool" where
  "isZero x \<longleftrightarrow> x AND 0x7FFFFFFFFFFFFFFF = 0"

definition float64_eq :: "float64 \<Rightarrow> float64 \<Rightarrow> bool" where
  "float64_eq a b \<longleftrightarrow> \<not> isNaN a \<and> \<not> isNaN b \<and> (a = b \<or> (isZero a \<and> isZero b))"

text \<open>
  The struct \<open>Metric\<close>. A Go map value is \<open>nil\<close> (\<open>None\<close>) or a map; \<open>ConstLabels\<close>
  is read only through \<open>reflect.DeepEqual\<close>, which on \<open>map[string]string\<close> holds
  iff both are nil or both are non-nil with the same keys and values, that is equality
  of the options below. \<open>Objectives\<close> is kept as the list of its entries (a Go map
  keyed by \<open>float64\<close> may hold several NaN keys).
\<close>

record Metric =
  Name :: string
  Subsystem :: string
  Namespace :: string
  Help :: string
  Type :: string
  DeprecatedVersion :: string
  StabilityLevel :: string
  Labels :: "string list"
  Buckets :: "float64 list"
  Objectives :: "(float64 \<times> float64) list option"
  AgeBuckets :: uint32
  BufCap :: uint32
  MaxAge :: int64
  ConstLabels :: "(string \<rightharpoonup> string) option"

text \<open>The struct \<open>MetricKey\<close> of the older \<open>main.go\<close>.\<close>

record MetricKey =
  KNamespace :: string
  KSubsystem :: string
  KName :: string

datatype DiffType = Added | Removed | Updated

text \<open>
  The struct \<open>MetricDiff\<close>; its field \<open>Type\<close> is \<open>Kind\<close> here (the name \<open>Type\<close> is
  taken by \<open>Metric\<close>). A nil pointer is \<open>None\<close>, a nil slice is \<open>[]\<close>. The module is
  at Go 1.24, where each iteration of a \<open>range\<close> loop has its own \<open>oldMetric\<close> and
  \<open>newMetric\<close>, so the pointers stored in a diff are to the records of its own key.
\<close>

record MetricDiff =
  Key :: string
  Kind :: DiffType
  OldMetric :: "Metric option"
  NewMetric :: "Metric option"
  Changes :: "string list"

text \<open>
  A snapshot \<open>map[string]Metric\<close> is the list of its entries in the order in which
  \<open>range\<close> visits them; that order is arbitrary in Go, so each list with the same
  entries stands for the same Go map. The keys of a Go map are distinct
  (\<open>wf_snapshot\<close>); \<open>old[key]\<close> is \<open>map_of old key\<close>.
\<close>

type_synonym snapshot = "(string \<times> Metric) list"

definition wf_snapshot :: "snapshot \<Rightarrow> bool" where
  "wf_snapshot s \<longleftrightarrow> distinct (map fst s)"

datatype error = Error string

section \<open>Library functions of the source\<close>

text \<open>\<open>strings.Join(elems, sep)\<close>.\<close>

fun Join :: "string list \<Rightarrow> string \<Rightarrow> string" where
  "Join [] sep = []"
| "Join [x] sep = x"
| "Join (x # y # ys) sep = x @ sep @ Join (y # ys) sep"

text \<open>The verb \<open>%d\<close> of \<open>fmt.Sprintf\<close> on a \<open>uint32\<close> and on an \<open>int64\<close>.\<close>

fun decimal :: "nat \<Rightarrow> string" where
  "decimal n =
     (if n < 10 then [''0123456789'' ! n]
      else decimal (n div 10) @ [''0123456789'' ! (n mod 10)])"

definition fmt_uint32 :: "uint32 \<Rightarrow> string" where
  "fmt_uint32 w = decimal (unat w)"

definition fmt_int64 :: "int64 \<Rightarrow> string" where
  "fmt_int64 w = (if sint w < 0 then ''-'' @ decimal (nat (- sint w)) else decimal (nat (sint w)))"

text \<open>
  \<open>reflect.DeepEqual\<close> on two values of type \<open>map[string]string\<close>: both nil, or
  both non-nil with the same keys mapped to the same values.
\<close>

definition DeepEqual :: "(string \<rightharpoonup> string) option \<Rightarrow> (string \<rightharpoonup> string) option \<Rightarrow> bool" where
  "DeepEqual x y \<longleftrightarrow> x = y"

text \<open>\<open>fmt.Sprintf("`%s`", label)\<close>.\<close>

definition quoted :: "string \<Rightarrow> string" where
  "quoted label = ''`'' @ label @ ''`''"

text \<open>The arrow U+2192 of the reordering message, as its three UTF-8 bytes.\<close>

definition arrow :: string where
  "arrow = [CHR 0xE2, CHR 0x86, CHR 0x92]"

section \<open>The identity key\<close>

definition metricKey :: "Metric \<Rightarrow> string" where
  "metricKey m =
     (let parts = [];
          parts = (if Namespace m \<noteq> [] then parts @ [Namespace m] else parts);
          parts = (if Subsystem m \<noteq> [] then parts @ [Subsystem m] else parts);
          parts = parts @ [Name m]
      in Join parts ''_'')"

text \<open>\<open>MetricKey.String\<close> of the older \<open>main.go\<close>.\<close>

definition MetricKey_String :: "MetricKey \<Rightarrow> string" where
  "MetricKey_String m =
     (let parts = [];
          parts = (if KNamespace m \<noteq> [] then parts @ [KNamespace m] else parts);
          parts = (if KSubsystem m \<noteq> [] then parts @ [KSubsystem m] else parts);
          parts = parts @ [KName m]
      in Join parts ''_'')"

text \<open>
  The key as the specification words it: the non-empty ones among namespace and
  subsystem, then the name, joined by the separator.
\<close>

definition key_spec :: "string \<Rightarrow> string \<Rightarrow> string \<Rightarrow> string" where
  "key_spec namespace subsystem name =
     Join (filter (\<lambda>s. s \<noteq> []) [namespace, subsystem] @ [name]) ''_''"

section \<open>Indexing a decoded snapshot\<close>

text \<open>
  The loop of \<open>loadMetrics\<close>: \<open>metricMap[key] = metric\<close> replaces the entry of a key
  that is present and adds one otherwise.
\<close>

definition indexMetrics :: "Metric list \<Rightarrow> snapshot" where
  "indexMetrics metrics =
     foldl (\<lambda>metricMap metric. AList.update (metricKey metric) metric metricMap) [] metrics"

text \<open>
  \<open>loadMetrics\<close>, with \<open>os.ReadFile\<close> and \<open>yaml.Unmarshal\<close> as parameters: each
  returns an error or a value.
\<close>

definition loadMetrics ::
  "(string \<Rightarrow> error + string) \<Rightarrow> (string \<Rightarrow> error + Metric list) \<Rightarrow> string \<Rightarrow> error + snapshot"
where
  "loadMetrics readFile unmarshal filename =
     (case readFile filename of
        Inl err \<Rightarrow> Inl err
      | Inr data \<Rightarrow>
          (case unmarshal data of
             Inl err \<Rightarrow> Inl err
           | Inr metrics \<Rightarrow> Inr (indexMetrics metrics)))"

section \<open>Field comparators\<close>

fun equalStringSlices_loop :: "string list \<Rightarrow> string list \<Rightarrow> bool" where
  "equalStringSlices_loop (x # xs) (y # ys) =
     (if x \<noteq> y then False else equalStringSlices_loop xs ys)"
| "equalStringSlices_loop _ _ = True"

definition equalStringSlices :: "string list \<Rightarrow> string list \<Rightarrow> bool" where
  "equalStringSlices a b =
     (if length a \<noteq> length b then False else equalStringSlices_loop a b)"

fun equalFloat64Slices_loop :: "float64 list \<Rightarrow> float64 list \<Rightarrow> bool" where
  "equalFloat64Slices_loop (x # xs) (y # ys) =
     (if \<not> float64_eq x y then False else equalFloat64Slices_loop xs ys)"
| "equalFloat64Slices_loop _ _ = True"

definition equalFloat64Slices :: "float64 list \<Rightarrow> float64 list \<Rightarrow> bool" where
  "equalFloat64Slices a b =
     (if length a \<noteq> length b then False else equalFloat64Slices_loop a b)"

text \<open>
  \<open>compareLabelSlices\<close>. The two sets are Go maps, so the two \<open>range\<close> loops over
  them visit the labels in an arbitrary order: \<open>newOrder\<close> and \<open>oldOrder\<close> are these
  orders, enumerations without repetition of the labels of each side.
\<close>

definition compareLabelSlices_in ::
  "string list \<Rightarrow> string list \<Rightarrow> string list \<Rightarrow> string list \<Rightarrow> string"
where
  "compareLabelSlices_in newOrder oldOrder oldLabels newLabels =
     (let oldSet = set oldLabels;
          newSet = set newLabels;
          added = map quoted (filter (\<lambda>label. label \<notin> oldSet) newOrder);
          removed = map quoted (filter (\<lambda>label. label \<notin> newSet) oldOrder);
          added = sort added;
          removed = sort removed;
          changes = [];
          changes = (if length added > 0
                     then changes @ [''Added labels: ['' @ Join added '', '' @ ''].'']
                     else changes);
          changes = (if length removed > 0
                     then changes @ [''Removed labels: ['' @ Join removed '', '' @ ''].'']
                     else changes)
      in if length changes = 0
         then ''Labels reordered: ['' @ Join oldLabels '', '' @ ''] '' @ arrow @ '' [''
                @ Join newLabels '', '' @ '']''
         else Join changes '' <br> '')"


text \<open>
  Every such order gives the same string (\<open>compareLabelSlices_in_quoted\<close> below), since
  the two lists are sorted before they are used; the order of first occurrence is taken
  here.
\<close>

definition compareLabelSlices :: "string list \<Rightarrow> string list \<Rightarrow> string" where
  "compareLabelSlices oldLabels newLabels =
     compareLabelSlices_in (remdups newLabels) (remdups oldLabels) oldLabels newLabels"

text \<open>The blocks of the body of \<open>compareMetrics\<close>, each giving what it appends.\<close>

definition helpChange :: "Metric \<Rightarrow> Metric \<Rightarrow> string list" where
  "helpChange oldMetric newMetric =
     (if Help oldMetric \<noteq> Help newMetric then [''Help text changed.''] else [])"

definition typeChange :: "Metric \<Rightarrow> Metric \<Rightarrow> string list" where
  "typeChange oldMetric newMetric =
     (if Type oldMetric \<noteq> Type newMetric
      then [''Type changed from `'' @ Type oldMetric @ ''` to `'' @ Type newMetric @ ''`.'']
      else [])"

definition stabilityChange :: "Metric \<Rightarrow> Metric \<Rightarrow> string list" where
  "stabilityChange oldMetric newMetric =
     (if StabilityLevel oldMetric \<noteq> StabilityLevel newMetric
      then [''Stability level changed from `'' @ StabilityLevel oldMetric @ ''` to `''
              @ StabilityLevel newMetric @ ''`.'']
      else [])"

definition deprecatedChange :: "Metric \<Rightarrow> Metric \<Rightarrow> string list" where
  "deprecatedChange oldMetric newMetric =
     (if DeprecatedVersion oldMetric \<noteq> DeprecatedVersion newMetric
      then (if DeprecatedVersion oldMetric = []
            then [''Marked as deprecated in version `'' @ DeprecatedVersion newMetric @ ''`.'']
            else if DeprecatedVersion newMetric = []
            then [''No longer marked as deprecated.'']
            else [''Deprecated version changed from `'' @ DeprecatedVersion oldMetric
                    @ ''` to `'' @ DeprecatedVersion newMetric @ ''`.''])
      else [])"

definition ageBucketsChange :: "Metric \<Rightarrow> Metric \<Rightarrow> string list" where
  "ageBucketsChange oldMetric newMetric =
     (if AgeBuckets oldMetric \<noteq> AgeBuckets newMetric
      then [''AgeBuckets changed from `'' @ fmt_uint32 (AgeBuckets oldMetric) @ ''` to `''
              @ fmt_uint32 (AgeBuckets newMetric) @ ''`.'']
      else [])"

definition bufCapChange :: "Metric \<Rightarrow> Metric \<Rightarrow> string list" where
  "bufCapChange oldMetric newMetric =
     (if BufCap oldMetric \<noteq> BufCap newMetric
      then [''BufCap changed from `'' @ fmt_uint32 (BufCap oldMetric) @ ''` to `''
              @ fmt_uint32 (BufCap newMetric) @ ''`.'']
      else [])"

definition maxAgeChange :: "Metric \<Rightarrow> Metric \<Rightarrow> string list" where
  "maxAgeChange oldMetric newMetric =
     (if MaxAge oldMetric \<noteq> MaxAge newMetric
      then [''MaxAge changed from `'' @ fmt_int64 (MaxAge oldMetric) @ ''` to `''
              @ fmt_int64 (MaxAge newMetric) @ ''`.'']
      else [])"

definition constLabelsChange :: "Metric \<Rightarrow> Metric \<Rightarrow> string list" where
  "constLabelsChange oldMetric newMetric =
     (if DeepEqual (ConstLabels oldMetric) (ConstLabels newMetric) = False
      then [''ConstLabels changed.''] else [])"

definition labelsChange :: "Metric \<Rightarrow> Metric \<Rightarrow> string list" where
  "labelsChange oldMetric newMetric =
     (if \<not> equalStringSlices (Labels oldMetric) (Labels newMetric)
      then (let labelDiff = compareLabelSlices (Labels oldMetric) (Labels newMetric)
            in [labelDiff])
      else [])"

definition bucketsChange :: "Metric \<Rightarrow> Metric \<Rightarrow> string list" where
  "bucketsChange oldMetric newMetric =
     (if \<not> equalFloat64Slices (Buckets oldMetric) (Buckets newMetric)
      then [''Buckets changed.''] else [])"

definition metricChanges :: "Metric \<Rightarrow> Metric \<Rightarrow> string list" where
  "metricChanges oldMetric newMetric =
     helpChange oldMetric newMetric @ typeChange oldMetric newMetric
     @ stabilityChange oldMetric newMetric @ deprecatedChange oldMetric newMetric
     @ ageBucketsChange oldMetric newMetric @ bufCapChange oldMetric newMetric
     @ maxAgeChange oldMetric newMetric @ constLabelsChange oldMetric newMetric
     @ labelsChange oldMetric newMetric @ bucketsChange oldMetric newMetric"

section \<open>The differ\<close>

text \<open>The body of the first loop, over the entries of \<open>new\<close>.\<close>

definition addedOrUpdatedDiff :: "snapshot \<Rightarrow> string \<times> Metric \<Rightarrow> MetricDiff list" where
  "addedOrUpdatedDiff old entry =
     (case entry of (key, newMetric) \<Rightarrow>
        (case map_of old key of
           Some oldMetric \<Rightarrow>
             (let changes = metricChanges oldMetric newMetric
              in if length changes > 0
                 then [\<lparr>Key = key, Kind = Updated, OldMetric = Some oldMetric,
                         NewMetric = Some newMetric, Changes = changes\<rparr>]
                 else [])
         | None \<Rightarrow>
             [\<lparr>Key = key, Kind = Added, OldMetric = None,
               NewMetric = Some newMetric, Changes = []\<rparr>]))"

text \<open>The body of the second loop, over the entries of \<open>old\<close>.\<close>

definition removedDiff :: "snapshot \<Rightarrow> string \<times> Metric \<Rightarrow> MetricDiff list" where
  "removedDiff new entry =
     (case entry of (key, oldMetric) \<Rightarrow>
        (if map_of new key = None
         then [\<lparr>Key = key, Kind = Removed, OldMetric = Some oldMetric,
                 NewMetric = None, Changes = []\<rparr>]
         else []))"

text \<open>The two loops of \<open>compareMetrics\<close>: the diffs before they are sorted.\<close>

definition collectDiffs :: "snapshot \<Rightarrow> snapshot \<Rightarrow> MetricDiff list" where
  "collectDiffs old new =
     (let diffs = [];
          diffs = foldl (\<lambda>diffs entry. diffs @ addedOrUpdatedDiff old entry) diffs new;
          diffs = foldl (\<lambda>diffs entry. diffs @ removedDiff new entry) diffs old
      in diffs)"

text \<open>
  \<open>compareMetrics\<close>. \<open>sort.Slice\<close> with the comparison of the keys is
  \<open>sort_key Key\<close>; \<open>sort.Slice\<close> is not stable, and \<open>sort_Slice_unique\<close> below shows
  that on distinct keys every sorted rearrangement is this one.
\<close>

definition compareMetrics :: "snapshot \<Rightarrow> snapshot \<Rightarrow> MetricDiff list" where
  "compareMetrics old new = (let diffs = collectDiffs old new in sort_key Key diffs)"

section \<open>Specification-side definitions and example data\<close>

text \<open>The bit patterns of 1.0, 2.0, 3.0 and of a quiet NaN.\<close>

definition f64_1 :: float64 where
  "f64_1 = 0x3FF0000000000000"

definition f64_2 :: float64 where
  "f64_2 = 0x4000000000000000"

definition f64_3 :: float64 where
  "f64_3 = 0x4008000000000000"

definition f64_NaN :: float64 where
  "f64_NaN = 0x7FF8000000000001"








text \<open>What \<open>compareMetrics\<close> holds for one key, by the presence of the key on each side.\<close>

definition diffAt :: "snapshot \<Rightarrow> snapshot \<Rightarrow> string \<Rightarrow> MetricDiff list" where
  "diffAt old new k =
     (case (map_of old k, map_of new k) of
        (None, None) \<Rightarrow> []
      | (None, Some b) \<Rightarrow>
          [\<lparr>Key = k, Kind = Added, OldMetric = None, NewMetric = Some b, Changes = []\<rparr>]
      | (Some a, None) \<Rightarrow>
          [\<lparr>Key = k, Kind = Removed, OldMetric = Some a, NewMetric = None, Changes = []\<rparr>]
      | (Some a, Some b) \<Rightarrow>
          (if metricChanges a b \<noteq> []
           then [\<lparr>Key = k, Kind = Updated, OldMetric = Some a, NewMetric = Some b,
                   Changes = metricChanges a b\<rparr>]
           else []))"

text \<open>The keys of the diffs of one classification.\<close>

definition keys_of :: "DiffType \<Rightarrow> MetricDiff list \<Rightarrow> string set" where
  "keys_of t diffs = Key ` {d \<in> set diffs. Kind d = t}"

text \<open>Records and snapshots used as concrete inputs.\<close>

definition fooMetric :: Metric where
  "fooMetric = \<lparr>Name = ''foo'', Subsystem = [], Namespace = [], Help = ''x'', Type = ''counter'',
         DeprecatedVersion = [], StabilityLevel = [], Labels = [], Buckets = [],
         Objectives = None, AgeBuckets = 0, BufCap = 0, MaxAge = 0, ConstLabels = None\<rparr>"

definition oldExample :: snapshot where
  "oldExample =
     [(''foo'', fooMetric), (''baz'', fooMetric\<lparr>Name := ''baz''\<rparr>),
      (''same'', fooMetric\<lparr>Name := ''same''\<rparr>)]"

definition newExample :: snapshot where
  "newExample =
     [(''same'', fooMetric\<lparr>Name := ''same''\<rparr>), (''foo'', fooMetric\<lparr>Type := ''gauge''\<rparr>),
      (''bar'', fooMetric\<lparr>Name := ''bar'', Help := ''y''\<rparr>)]"

definition decodedExample :: "Metric list" where
  "decodedExample = [fooMetric, fooMetric\<lparr>Name := ''bar''\<rparr>, fooMetric\<lparr>Type := ''gauge''\<rparr>]"

definition indexedExample :: snapshot where
  "indexedExample = [(''foo'', fooMetric\<lparr>Type := ''gauge''\<rparr>), (''bar'', fooMetric\<lparr>Name := ''bar''\<rparr>)]"

definition barDiff :: MetricDiff where
  "barDiff = \<lparr>Key = ''bar'', Kind = Added, OldMetric = None,
               NewMetric = Some (fooMetric\<lparr>Name := ''bar'', Help := ''y''\<rparr>), Changes = []\<rparr>"

definition bazDiff :: MetricDiff where
  "bazDiff = \<lparr>Key = ''baz'', Kind = Removed, OldMetric = Some (fooMetric\<lparr>Name := ''baz''\<rparr>),
               NewMetric = None, Changes = []\<rparr>"

definition fooDiff :: MetricDiff where
  "fooDiff = \<lparr>Key = ''foo'', Kind = Updated, OldMetric = Some fooMetric,
            NewMetric = Some (fooMetric\<lparr>Type := ''gauge''\<rparr>),
            Changes = [''Type changed from `counter` to `gauge`.'']\<rparr>"

definition cleanSnapshot :: snapshot where
  "cleanSnapshot =
     [(''foo'', fooMetric\<lparr>Buckets := [f64_1, f64_2]\<rparr>), (''bar'', fooMetric\<lparr>Name := ''bar''\<rparr>)]"

definition nanMetric :: Metric where
  "nanMetric = fooMetric\<lparr>Buckets := [f64_1, f64_NaN]\<rparr>"

definition nanSnapshot :: snapshot where
  "nanSnapshot = [(''foo'', nanMetric)]"

definition barBuckets :: Metric where
  "barBuckets = fooMetric\<lparr>Name := ''bar'', Buckets := [f64_1, f64_2]\<rparr>"

definition mixedSnapshot :: snapshot where
  "mixedSnapshot = [(''foo'', nanMetric), (''bar'', barBuckets)]"

definition summaryA :: Metric where
  "summaryA = fooMetric\<lparr>Type := ''summary'', Buckets := [f64_1, f64_2],
                        Objectives := Some [(f64_1, f64_2)]\<rparr>"

definition summaryB :: Metric where
  "summaryB = fooMetric\<lparr>Type := ''summary'', Buckets := [f64_1, f64_2],
                        Objectives := Some [(f64_1, f64_3)]\<rparr>"

definition nanMetricObj :: Metric where
  "nanMetricObj = nanMetric\<lparr>Objectives := Some [(f64_1, f64_2)]\<rparr>"

section \<open>The differ of the older main.go\<close>

text \<open>
  The older \<open>main.go\<close> keys its snapshots by the struct \<open>MetricKey\<close> and sorts the
  diffs by \<open>Key.String()\<close>. Its names carry a \<open>0\<close> here.
\<close>

record Metric0 =
  Name0 :: string
  Namespace0 :: string
  Subsystem0 :: string
  Help0 :: string
  Type0 :: string
  StabilityLevel0 :: string
  Labels0 :: "string list"
  Buckets0 :: "float64 list"

datatype DiffType0 = Added0 | Removed0 | Modified0

record MetricDiff0 =
  Key0 :: MetricKey
  Kind0 :: DiffType0
  OldMetric0 :: "Metric0 option"
  NewMetric0 :: "Metric0 option"
  Changes0 :: "string list"

type_synonym snapshot0 = "(MetricKey \<times> Metric0) list"

definition metricChanges0 :: "Metric0 \<Rightarrow> Metric0 \<Rightarrow> string list" where
  "metricChanges0 oldMetric newMetric =
     (let changes = [];
          changes = (if Help0 oldMetric \<noteq> Help0 newMetric
                     then changes @ [''Help text changed''] else changes);
          changes = (if Type0 oldMetric \<noteq> Type0 newMetric
                     then changes @ [''Type changed from '' @ Type0 oldMetric @ '' to ''
                                       @ Type0 newMetric]
                     else changes);
          changes = (if StabilityLevel0 oldMetric \<noteq> StabilityLevel0 newMetric
                     then changes @ [''Stability level changed from ''
                                       @ StabilityLevel0 oldMetric @ '' to ''
                                       @ StabilityLevel0 newMetric]
                     else changes);
          changes = (if Namespace0 oldMetric \<noteq> Namespace0 newMetric
                     then changes @ [''Namespace changed from '' @ [CHR 0x27]
                                       @ Namespace0 oldMetric @ [CHR 0x27] @ '' to ''
                                       @ [CHR 0x27] @ Namespace0 newMetric @ [CHR 0x27]]
                     else changes);
          changes = (if \<not> equalStringSlices (Labels0 oldMetric) (Labels0 newMetric)
                     then changes @ [''Labels changed''] else changes);
          changes = (if \<not> equalFloat64Slices (Buckets0 oldMetric) (Buckets0 newMetric)
                     then changes @ [''Buckets changed''] else changes)
      in changes)"

definition addedOrModifiedDiff0 :: "snapshot0 \<Rightarrow> MetricKey \<times> Metric0 \<Rightarrow> MetricDiff0 list" where
  "addedOrModifiedDiff0 old entry =
     (case entry of (key, newMetric) \<Rightarrow>
        (case map_of old key of
           Some oldMetric \<Rightarrow>
             (let changes = metricChanges0 oldMetric newMetric
              in if length changes > 0
                 then [\<lparr>Key0 = key, Kind0 = Modified0, OldMetric0 = Some oldMetric,
                         NewMetric0 = Some newMetric, Changes0 = changes\<rparr>]
                 else [])
         | None \<Rightarrow>
             [\<lparr>Key0 = key, Kind0 = Added0, OldMetric0 = None,
               NewMetric0 = Some newMetric, Changes0 = []\<rparr>]))"

definition removedDiff0 :: "snapshot0 \<Rightarrow> MetricKey \<times> Metric0 \<Rightarrow> MetricDiff0 list" where
  "removedDiff0 new entry =
     (case entry of (key, oldMetric) \<Rightarrow>
        (if map_of new key = None
         then [\<lparr>Key0 = key, Kind0 = Removed0, OldMetric0 = Some oldMetric,
                 NewMetric0 = None, Changes0 = []\<rparr>]
         else []))"

text \<open>
  On the two entries used below \<open>sort.Slice\<close> runs its insertion sort, which leaves
  entries with equal keys in the order in which the loops collected them, as
  \<open>sort_key\<close> does.
\<close>

definition compareMetrics0 :: "snapshot0 \<Rightarrow> snapshot0 \<Rightarrow> MetricDiff0 list" where
  "compareMetrics0 old new =
     (let diffs = [];
          diffs = foldl (\<lambda>diffs entry. diffs @ addedOrModifiedDiff0 old entry) diffs new;
          diffs = foldl (\<lambda>diffs entry. diffs @ removedDiff0 new entry) diffs old
      in sort_key (\<lambda>d. MetricKey_String (Key0 d)) diffs)"

text \<open>The loop of the older \<open>loadMetrics\<close>, which keys each record by its triple.\<close>

definition indexMetrics0 :: "Metric0 list \<Rightarrow> snapshot0" where
  "indexMetrics0 metrics =
     foldl (\<lambda>metricMap metric.
              (let key = \<lparr>KNamespace = Namespace0 metric, KSubsystem = Subsystem0 metric,
                          KName = Name0 metric\<rparr>
               in AList.update key metric metricMap))
       [] metrics"

definition keyNs :: MetricKey where
  "keyNs = \<lparr>KNamespace = ''a'', KSubsystem = [], KName = ''b''\<rparr>"

definition keySub :: MetricKey where
  "keySub = \<lparr>KNamespace = [], KSubsystem = ''a'', KName = ''b''\<rparr>"

definition metricNs :: Metric0 where
  "metricNs = \<lparr>Name0 = ''b'', Namespace0 = ''a'', Subsystem0 = [], Help0 = [], Type0 = [],
               StabilityLevel0 = [], Labels0 = [], Buckets0 = []\<rparr>"

definition metricSub :: Metric0 where
  "metricSub = \<lparr>Name0 = ''b'', Namespace0 = [], Subsystem0 = ''a'', Help0 = [], Type0 = [],
                StabilityLevel0 = [], Labels0 = [], Buckets0 = []\<rparr>"

definition diffNs :: MetricDiff0 where
  "diffNs = \<lparr>Key0 = keyNs, Kind0 = Added0, OldMetric0 = None, NewMetric0 = Some metricNs,
              Changes0 = []\<rparr>"

definition diffSub :: MetricDiff0 where
  "diffSub = \<lparr>Key0 = keySub, Kind0 = Added0, OldMetric0 = None, NewMetric0 = Some metricSub,
               Changes0 = []\<rparr>"

section \<open>Auxiliary facts\<close>

lemma foldl_append_concat:
  "foldl (\<lambda>acc x. acc @ f x) acc xs = acc @ concat (map f xs)"
  by (induction xs arbitrary: acc) simp_all

lemma collectDiffs_concat:
  "collectDiffs old new =
     concat (map (addedOrUpdatedDiff old) new) @ concat (map (removedDiff new) old)"
  by (simp add: collectDiffs_def foldl_append_concat)

lemmas diff_eval = compareMetrics_def collectDiffs_def addedOrUpdatedDiff_def removedDiff_def
      metricChanges_def helpChange_def typeChange_def stabilityChange_def deprecatedChange_def
      ageBucketsChange_def bufCapChange_def maxAgeChange_def constLabelsChange_def
      DeepEqual_def labelsChange_def bucketsChange_def equalStringSlices_def
      equalFloat64Slices_def float64_eq_def isNaN_def isZero_def

subsection \<open>Equality of slices\<close>

lemma equalStringSlices_loop_iff:
  "length a = length b \<Longrightarrow> equalStringSlices_loop a b \<longleftrightarrow> a = b"
  by (induction a b rule: list_induct2) simp_all

lemma equalStringSlices_iff: "equalStringSlices a b \<longleftrightarrow> a = b"
  by (auto simp: equalStringSlices_def equalStringSlices_loop_iff)

lemma equalFloat64Slices_loop_iff:
  "length a = length b \<Longrightarrow> equalFloat64Slices_loop a b \<longleftrightarrow> list_all2 float64_eq a b"
  by (induction a b rule: list_induct2) simp_all

lemma equalFloat64Slices_iff: "equalFloat64Slices a b \<longleftrightarrow> list_all2 float64_eq a b"
  by (auto simp: equalFloat64Slices_def equalFloat64Slices_loop_iff dest: list_all2_lengthD)

subsection \<open>The label diff\<close>

lemma inj_quoted: "inj quoted"
  by (simp add: inj_def quoted_def)











subsection \<open>The diffs of one key\<close>

lemma Key_addedOrUpdatedDiff: "d \<in> set (addedOrUpdatedDiff old e) \<Longrightarrow> Key d = fst e"
  by (auto simp: addedOrUpdatedDiff_def Let_def split: prod.splits option.splits if_splits)

lemma Key_removedDiff: "d \<in> set (removedDiff new e) \<Longrightarrow> Key d = fst e"
  by (auto simp: removedDiff_def split: prod.splits if_splits)

lemma filter_concat_by_key:
  assumes "distinct (map fst xs)" and "\<And>e d. d \<in> set (g e) \<Longrightarrow> key d = fst e"
  shows "filter (\<lambda>d. key d = k) (concat (map g xs))
           = (case map_of xs k of None \<Rightarrow> [] | Some m \<Rightarrow> g (k, m))"
  using assms(1)
proof (induction xs)
  case Nil
  then show ?case by simp
next
  case (Cons e xs)
  obtain k' m' where e: "e = (k', m')" by (cases e)
  have here: "filter (\<lambda>d. key d = k) (g e) = (if k' = k then g e else [])"
    using assms(2) [of _ e] by (auto simp: e filter_empty_conv intro: filter_True)
  show ?case
  proof (cases "k' = k")
    case True
    with Cons.prems have "map_of xs k = None"
      by (simp add: e map_of_eq_None_iff)
    with Cons True here show ?thesis by (simp add: e)
  next
    case False
    with Cons here show ?thesis by (simp add: e)
  qed
qed

lemma collectDiffs_at_key:
  assumes "wf_snapshot old" "wf_snapshot new"
  shows "filter (\<lambda>d. Key d = k) (collectDiffs old new) = diffAt old new k"
proof -
  have a: "filter (\<lambda>d. Key d = k) (concat (map (addedOrUpdatedDiff old) new))
        = (case map_of new k of None \<Rightarrow> [] | Some m \<Rightarrow> addedOrUpdatedDiff old (k, m))"
    using assms(2) by (intro filter_concat_by_key) (auto simp: wf_snapshot_def dest: Key_addedOrUpdatedDiff)
  have r: "filter (\<lambda>d. Key d = k) (concat (map (removedDiff new) old))
        = (case map_of old k of None \<Rightarrow> [] | Some m \<Rightarrow> removedDiff new (k, m))"
    using assms(1) by (intro filter_concat_by_key) (auto simp: wf_snapshot_def dest: Key_removedDiff)
  show ?thesis
    by (simp add: collectDiffs_concat a r diffAt_def addedOrUpdatedDiff_def removedDiff_def Let_def
        split: option.splits)
qed

lemma compareMetrics_at_key:
  assumes "wf_snapshot old" "wf_snapshot new"
  shows "filter (\<lambda>d. Key d = k) (compareMetrics old new) = diffAt old new k"
proof -
  have "filter (\<lambda>d. Key d = k) (compareMetrics old new)
          = sort_key Key (filter (\<lambda>d. Key d = k) (collectDiffs old new))"
    by (simp add: compareMetrics_def filter_sort)
  also have "\<dots> = sort_key Key (diffAt old new k)"
    by (simp add: collectDiffs_at_key assms)
  also have "\<dots> = diffAt old new k"
    by (simp add: diffAt_def split: option.splits)
  finally show ?thesis .
qed

lemma length_diffAt: "length (diffAt old new k) \<le> Suc 0"
  by (simp add: diffAt_def split: option.splits)

subsection \<open>Sorting, and the order in which the entries are visited\<close>

lemma distinct_map_by_filter:
  assumes "\<And>k. length (filter (\<lambda>d. f d = k) xs) \<le> 1"
  shows "distinct (map f xs)"
  using assms
proof (induction xs)
  case Nil
  then show ?case by simp
next
  case (Cons x xs)
  have "f x \<notin> f ` set xs"
  proof
    assume "f x \<in> f ` set xs"
    then obtain y where y: "y \<in> set xs" "f y = f x" by auto
    then have "filter (\<lambda>d. f d = f x) xs \<noteq> []"
      by (auto simp: filter_empty_conv)
    then have "length (filter (\<lambda>d. f d = f x) (x # xs)) \<ge> 2"
      by (cases "filter (\<lambda>d. f d = f x) xs") simp_all
    with Cons.prems [of "f x"] show False by simp
  qed
  moreover have "distinct (map f xs)"
  proof (rule Cons.IH)
    fix k
    show "length (filter (\<lambda>d. f d = k) xs) \<le> 1"
      using Cons.prems [of k] by (simp split: if_splits)
  qed
  ultimately show ?case by simp
qed

lemma distinct_Key_collectDiffs:
  assumes "wf_snapshot old" "wf_snapshot new"
  shows "distinct (map Key (collectDiffs old new))"
  by (rule distinct_map_by_filter) (simp add: collectDiffs_at_key assms length_diffAt)

lemma sort_Slice_unique:
  assumes "distinct (map f xs)" "mset ys = mset xs" "sorted (map f ys)"
  shows "sort_key f xs = ys"
proof (rule properties_for_sort_key)
  show "mset ys = mset xs" by fact
  show "sorted (map f ys)" by fact
  fix k assume "k \<in> set ys"
  have dy: "distinct (map f ys)"
    using assms(1,2) by (metis mset_eq_imp_distinct_iff mset_map)
  have s: "set ys = set xs" using assms(2) by (rule mset_eq_setD)
  have "filter (\<lambda>x. f k = f x) zs = [k]" if "distinct (map f zs)" "k \<in> set zs" for zs
    using that
  proof (induction zs)
    case Nil
    then show ?case by simp
  next
    case (Cons z zs)
    then show ?case
      by (auto simp: filter_empty_conv image_iff)
  qed
  from this [OF dy] this [OF assms(1)] \<open>k \<in> set ys\<close> s
  show "filter (\<lambda>x. f k = f x) ys = filter (\<lambda>x. f k = f x) xs"
    by simp
qed

lemma mset_concat_map:
  "mset (concat (map g xs)) = (\<Sum>x\<in>#mset xs. mset (g x))"
  by (induction xs) simp_all

lemma map_of_mset_cong:
  assumes "wf_snapshot xs" "mset ys = mset xs"
  shows "map_of ys = map_of xs"
proof -
  have "mset (map fst ys) = mset (map fst xs)" using assms(2) by simp
  then have "distinct (map fst ys)"
    using assms(1) unfolding wf_snapshot_def by (metis mset_eq_imp_distinct_iff)
  moreover have "set ys = set xs" using assms(2) by (rule mset_eq_setD)
  ultimately show ?thesis
    using assms(1) by (simp add: wf_snapshot_def map_of_inject_set)
qed

lemma wf_snapshot_mset:
  assumes "wf_snapshot xs" "mset ys = mset xs"
  shows "wf_snapshot ys"
proof -
  have "mset (map fst ys) = mset (map fst xs)" using assms(2) by simp
  then show ?thesis
    using assms(1) unfolding wf_snapshot_def by (metis mset_eq_imp_distinct_iff)
qed

lemma addedOrUpdatedDiff_cong:
  "map_of old' = map_of old \<Longrightarrow> addedOrUpdatedDiff old' = addedOrUpdatedDiff old"
  by (rule ext) (simp add: addedOrUpdatedDiff_def)

lemma removedDiff_cong:
  "map_of new' = map_of new \<Longrightarrow> removedDiff new' = removedDiff new"
  by (rule ext) (simp add: removedDiff_def)

lemma mset_collectDiffs_cong:
  assumes "wf_snapshot old" "wf_snapshot new" "mset old' = mset old" "mset new' = mset new"
  shows "mset (collectDiffs old' new') = mset (collectDiffs old new)"
proof -
  have o: "map_of old' = map_of old" using assms(1,3) by (rule map_of_mset_cong)
  have n: "map_of new' = map_of new" using assms(2,4) by (rule map_of_mset_cong)
  show ?thesis
    by (simp add: collectDiffs_concat mset_concat_map assms(3,4)
        addedOrUpdatedDiff_cong [OF o] removedDiff_cong [OF n])
qed

lemma compareMetrics_order_irrelevant:
  assumes "wf_snapshot old" "wf_snapshot new" "mset old' = mset old" "mset new' = mset new"
  shows "compareMetrics old' new' = compareMetrics old new"
proof -
  have "sort_key Key (collectDiffs old new) = sort_key Key (collectDiffs old' new')"
  proof (rule sort_Slice_unique)
    show "distinct (map Key (collectDiffs old new))"
      using assms(1,2) by (rule distinct_Key_collectDiffs)
    show "mset (sort_key Key (collectDiffs old' new')) = mset (collectDiffs old new)"
      by (simp add: mset_collectDiffs_cong [OF assms])
    show "sorted (map Key (sort_key Key (collectDiffs old' new')))"
      by simp
  qed
  then show ?thesis by (simp add: compareMetrics_def)
qed

subsection \<open>The keys of one classification\<close>

lemma Kind_addedOrUpdatedDiff:
  "d \<in> set (addedOrUpdatedDiff old e) \<Longrightarrow>
     Kind d \<noteq> Removed \<and> (Kind d = Added \<longleftrightarrow> map_of old (fst e) = None)"
  by (cases e) (auto simp: addedOrUpdatedDiff_def Let_def split: option.splits if_splits)

lemma Kind_removedDiff:
  "d \<in> set (removedDiff new e) \<Longrightarrow> Kind d = Removed \<and> map_of new (fst e) = None"
  by (cases e) (auto simp: removedDiff_def split: if_splits)

lemma addedOrUpdatedDiff_None:
  "map_of old k = None \<Longrightarrow> addedOrUpdatedDiff old (k, m) =
     [\<lparr>Key = k, Kind = Added, OldMetric = None, NewMetric = Some m, Changes = []\<rparr>]"
  by (simp add: addedOrUpdatedDiff_def)

lemma removedDiff_None:
  "map_of new k = None \<Longrightarrow> removedDiff new (k, m) =
     [\<lparr>Key = k, Kind = Removed, OldMetric = Some m, NewMetric = None, Changes = []\<rparr>]"
  by (simp add: removedDiff_def)

lemma set_collectDiffs:
  "set (collectDiffs old new)
     = (\<Union>e\<in>set new. set (addedOrUpdatedDiff old e)) \<union> (\<Union>e\<in>set old. set (removedDiff new e))"
  by (simp add: collectDiffs_concat)

lemma Added_keys: "keys_of Added (compareMetrics A B) = fst ` set B - fst ` set A"
proof (intro equalityI subsetI)
  fix k assume "k \<in> keys_of Added (compareMetrics A B)"
  then obtain d where d: "d \<in> set (collectDiffs A B)" "Kind d = Added" "Key d = k"
    by (auto simp: keys_of_def compareMetrics_def)
  from d(1,2) obtain e where e: "e \<in> set B" "d \<in> set (addedOrUpdatedDiff A e)"
    unfolding set_collectDiffs by (auto dest: Kind_removedDiff)
  from e(2) d(2,3) have "map_of A k = None" "fst e = k"
    using Kind_addedOrUpdatedDiff [OF e(2)] Key_addedOrUpdatedDiff [OF e(2)] by simp_all
  with e(1) show "k \<in> fst ` set B - fst ` set A"
    by (auto simp: map_of_eq_None_iff)
next
  fix k assume "k \<in> fst ` set B - fst ` set A"
  then obtain m where m: "(k, m) \<in> set B" "map_of A k = None"
    by (auto simp: map_of_eq_None_iff)
  let ?d = "\<lparr>Key = k, Kind = Added, OldMetric = None, NewMetric = Some m, Changes = []\<rparr>"
  have "?d \<in> set (addedOrUpdatedDiff A (k, m))"
    by (simp add: addedOrUpdatedDiff_None m(2))
  with m(1) have "?d \<in> set (collectDiffs A B)"
    unfolding set_collectDiffs by blast
  then have "Key ?d \<in> keys_of Added (compareMetrics A B)"
    unfolding keys_of_def compareMetrics_def by (intro imageI) simp
  then show "k \<in> keys_of Added (compareMetrics A B)" by simp
qed

lemma Removed_keys: "keys_of Removed (compareMetrics A B) = fst ` set A - fst ` set B"
proof (intro equalityI subsetI)
  fix k assume "k \<in> keys_of Removed (compareMetrics A B)"
  then obtain d where d: "d \<in> set (collectDiffs A B)" "Kind d = Removed" "Key d = k"
    by (auto simp: keys_of_def compareMetrics_def)
  from d(1,2) obtain e where e: "e \<in> set A" "d \<in> set (removedDiff B e)"
    unfolding set_collectDiffs by (auto dest: Kind_addedOrUpdatedDiff)
  from e(2) d(3) have "map_of B k = None" "fst e = k"
    using Kind_removedDiff [OF e(2)] Key_removedDiff [OF e(2)] by simp_all
  with e(1) show "k \<in> fst ` set A - fst ` set B"
    by (auto simp: map_of_eq_None_iff)
next
  fix k assume "k \<in> fst ` set A - fst ` set B"
  then obtain m where m: "(k, m) \<in> set A" "map_of B k = None"
    by (auto simp: map_of_eq_None_iff)
  let ?d = "\<lparr>Key = k, Kind = Removed, OldMetric = Some m, NewMetric = None, Changes = []\<rparr>"
  have "?d \<in> set (removedDiff B (k, m))"
    by (simp add: removedDiff_None m(2))
  with m(1) have "?d \<in> set (collectDiffs A B)"
    unfolding set_collectDiffs by blast
  then have "Key ?d \<in> keys_of Removed (compareMetrics A B)"
    unfolding keys_of_def compareMetrics_def by (intro imageI) simp
  then show "k \<in> keys_of Removed (compareMetrics A B)" by simp
qed

subsection \<open>Indexing\<close>

lemma find_snoc:
  "find P (xs @ [x]) = (case find P xs of Some r \<Rightarrow> Some r | None \<Rightarrow> if P x then Some x else None)"
  by (induction xs) simp_all

lemma map_of_foldl_index:
  "map_of (foldl (\<lambda>metricMap metric. AList.update (metricKey metric) metric metricMap) acc ms) k
     = (case find (\<lambda>r. metricKey r = k) (rev ms) of Some r \<Rightarrow> Some r | None \<Rightarrow> map_of acc k)"
proof (induction ms arbitrary: acc)
  case Nil
  then show ?case by simp
next
  case (Cons m ms)
  show ?case
    by (simp add: Cons.IH find_snoc update_conv' split: option.splits)
qed

lemma distinct_foldl_index:
  "distinct (map fst acc) \<Longrightarrow>
   distinct (map fst (foldl (\<lambda>metricMap metric. AList.update (metricKey metric) metric metricMap) acc ms))"
  by (induction ms arbitrary: acc) (simp_all add: distinct_update)

lemma keys_foldl_index:
  "fst ` set (foldl (\<lambda>metricMap metric. AList.update (metricKey metric) metric metricMap) acc ms)
     = fst ` set acc \<union> metricKey ` set ms"
  by (induction ms arbitrary: acc) (auto simp: dom_update)

subsection \<open>Concrete runs\<close>

text \<open>
  The end-to-end scenario of the specification: \<open>foo\<close> changes its type and \<open>bar\<close>
  is new.
\<close>

lemma compareMetrics_scenario:
  "compareMetrics [(''foo'', fooMetric)]
      [(''foo'', fooMetric\<lparr>Type := ''gauge''\<rparr>), (''bar'', fooMetric\<lparr>Name := ''bar'', Help := ''y''\<rparr>)]
   = [\<lparr>Key = ''bar'', Kind = Added, OldMetric = None,
        NewMetric = Some (fooMetric\<lparr>Name := ''bar'', Help := ''y''\<rparr>), Changes = []\<rparr>,
      \<lparr>Key = ''foo'', Kind = Updated, OldMetric = Some fooMetric,
        NewMetric = Some (fooMetric\<lparr>Type := ''gauge''\<rparr>),
        Changes = [''Type changed from `counter` to `gauge`.'']\<rparr>]"
  by (simp add: diff_eval fooMetric_def)

lemma sorted_compareMetrics: "sorted (map Key (compareMetrics old new))"
  by (simp add: compareMetrics_def)

lemma distinct_Key_compareMetrics:
  assumes "wf_snapshot old" "wf_snapshot new"
  shows "distinct (map Key (compareMetrics old new))"
proof -
  have "mset (map Key (compareMetrics old new)) = mset (map Key (collectDiffs old new))"
    by (simp add: compareMetrics_def)
  then show ?thesis
    using distinct_Key_collectDiffs [OF assms] by (metis mset_eq_imp_distinct_iff)
qed

lemma collectDiffs_example: "collectDiffs oldExample newExample = [fooDiff, barDiff, bazDiff]"
  by (simp add: diff_eval fooMetric_def oldExample_def newExample_def fooDiff_def barDiff_def bazDiff_def)

subsection \<open>Records that agree\<close>

text \<open>
  \<open>reflect.DeepEqual\<close> tells a nil map from an empty one, so a record with no constant
  labels and one with an empty mapping of them are reported as changed.
\<close>

lemma constLabels_nil_vs_empty:
  "constLabelsChange (fooMetric\<lparr>ConstLabels := None\<rparr>) (fooMetric\<lparr>ConstLabels := Some Map.empty\<rparr>)
     = [''ConstLabels changed.'']"
  by (simp add: constLabelsChange_def DeepEqual_def)

lemma float64_eq_refl_iff: "float64_eq x x \<longleftrightarrow> \<not> isNaN x"
  by (simp add: float64_eq_def)

lemma equalFloat64Slices_refl_iff:
  "equalFloat64Slices xs xs \<longleftrightarrow> (\<forall>x\<in>set xs. \<not> isNaN x)"
  by (simp add: equalFloat64Slices_iff list_all2_same float64_eq_refl_iff)

lemma metricChanges_agree:
  assumes "Help a = Help b" "Type a = Type b" "StabilityLevel a = StabilityLevel b"
    "DeprecatedVersion a = DeprecatedVersion b" "AgeBuckets a = AgeBuckets b"
    "BufCap a = BufCap b" "MaxAge a = MaxAge b" "ConstLabels a = ConstLabels b"
    "Labels a = Labels b"
  shows "metricChanges a b = bucketsChange a b"
  using assms
  by (simp add: metricChanges_def helpChange_def typeChange_def stabilityChange_def
      deprecatedChange_def ageBucketsChange_def bufCapChange_def maxAgeChange_def
      constLabelsChange_def DeepEqual_def labelsChange_def equalStringSlices_iff)

lemma metricChanges_self: "metricChanges m m = [] \<longleftrightarrow> (\<forall>x\<in>set (Buckets m). \<not> isNaN x)"
  by (simp add: metricChanges_agree bucketsChange_def equalFloat64Slices_refl_iff)

lemma metricChanges_self_NaN:
  "\<exists>x\<in>set (Buckets m). isNaN x \<Longrightarrow> metricChanges m m = [''Buckets changed.'']"
  by (simp add: metricChanges_agree bucketsChange_def equalFloat64Slices_refl_iff)

lemma metricChanges_Objectives:
  "metricChanges (a\<lparr>Objectives := x\<rparr>) (b\<lparr>Objectives := y\<rparr>) = metricChanges a b"
  by (simp add: metricChanges_def helpChange_def typeChange_def stabilityChange_def
      deprecatedChange_def ageBucketsChange_def bufCapChange_def maxAgeChange_def
      constLabelsChange_def DeepEqual_def labelsChange_def bucketsChange_def)

lemma compareMetrics_Nil_iff: "compareMetrics old new = [] \<longleftrightarrow> collectDiffs old new = []"
proof -
  have "length (compareMetrics old new) = length (collectDiffs old new)"
    by (simp add: compareMetrics_def)
  then show ?thesis by (metis length_0_conv)
qed

lemma map_of_entry: "wf_snapshot S \<Longrightarrow> (k, m) \<in> set S \<Longrightarrow> map_of S k = Some m"
  by (simp add: wf_snapshot_def)

subsection \<open>The output of the current differ is sorted and determined\<close>

text \<open>
  The output of \<open>compareMetrics\<close> is strictly ascending in the key, so sorted with no
  key twice; it is the same for every order in which the entries of the two snapshots
  are visited; and every sorted rearrangement of the collected diffs, which is all that
  the unstable \<open>sort.Slice\<close> promises, is this output.
\<close>

lemma compareMetrics_sorted_deterministic:
  assumes "wf_snapshot old" "wf_snapshot new"
  shows "sorted_wrt (<) (map Key (compareMetrics old new))
       \<and> (\<forall>old' new'. mset old' = mset old \<and> mset new' = mset new \<longrightarrow>
            compareMetrics old' new' = compareMetrics old new)
       \<and> (\<forall>out. mset out = mset (collectDiffs old new) \<and> sorted (map Key out) \<longrightarrow>
            out = compareMetrics old new)"
proof (intro conjI allI impI)
  show "sorted_wrt (<) (map Key (compareMetrics old new))"
    using sorted_compareMetrics [of old new] distinct_Key_compareMetrics [OF assms]
    by (simp add: strict_sorted_iff)
next
  fix old' new' assume "mset old' = mset old \<and> mset new' = mset new"
  then show "compareMetrics old' new' = compareMetrics old new"
    using compareMetrics_order_irrelevant [OF assms] by blast
next
  fix out assume "mset out = mset (collectDiffs old new) \<and> sorted (map Key out)"
  then show "out = compareMetrics old new"
    using sort_Slice_unique [OF distinct_Key_collectDiffs [OF assms], of out]
    by (simp add: compareMetrics_def)
qed

lemma compareMetrics_sorted_deterministic_example:
  "wf_snapshot oldExample \<and> wf_snapshot newExample
   \<and> sorted_wrt (<) (map Key (compareMetrics oldExample newExample))
   \<and> mset (rev oldExample) = mset oldExample \<and> mset (rev newExample) = mset newExample
   \<and> compareMetrics (rev oldExample) (rev newExample) = compareMetrics oldExample newExample
   \<and> mset [barDiff, bazDiff, fooDiff] = mset (collectDiffs oldExample newExample)
   \<and> sorted (map Key [barDiff, bazDiff, fooDiff])
   \<and> [barDiff, bazDiff, fooDiff] = compareMetrics oldExample newExample"
proof -
  have wo: "wf_snapshot oldExample" and wn: "wf_snapshot newExample"
    by (simp_all add: wf_snapshot_def oldExample_def newExample_def)
  note t = compareMetrics_sorted_deterministic [OF wo wn]
  have p: "mset (rev oldExample) = mset oldExample \<and> mset (rev newExample) = mset newExample"
    by simp
  have q: "mset [barDiff, bazDiff, fooDiff] = mset (collectDiffs oldExample newExample) \<and> sorted (map Key [barDiff, bazDiff, fooDiff])"
    by (simp add: collectDiffs_example) (simp add: barDiff_def bazDiff_def fooDiff_def)
  note r1 = t [THEN conjunct1]
  note r2 = t [THEN conjunct2, THEN conjunct1, rule_format, OF p]
  note r3 = t [THEN conjunct2, THEN conjunct2, rule_format, OF q]
  from wo wn p q r1 r2 r3 show ?thesis
    by (simp only: simp_thms)
qed

section \<open>Claims\<close>

text \<open>
  C3. The identity key of a record is the join, with the separator \<open>_\<close>, of the
  non-empty ones among namespace and subsystem followed by the name, which takes part
  even when it is empty; it is a function of the triple alone. The same holds of
  \<open>MetricKey.String\<close>.
\<close>

theorem metricKey_is_key_spec:
  "metricKey m = key_spec (Namespace m) (Subsystem m) (Name m)
   \<and> MetricKey_String k = key_spec (KNamespace k) (KSubsystem k) (KName k)
   \<and> key_spec [] [] name = name
   \<and> key_spec (a # as) [] name = (a # as) @ ''_'' @ name
   \<and> key_spec [] (b # bs) name = (b # bs) @ ''_'' @ name
   \<and> key_spec (a # as) (b # bs) name = (a # as) @ ''_'' @ (b # bs) @ ''_'' @ name"
  by (simp add: metricKey_def MetricKey_String_def key_spec_def)

text \<open>
  C8. When the file is read and decoded, \<open>loadMetrics\<close> returns the index of the
  decoded records and no error: each record is stored under its identity key in decode
  order, replacing the entry of a key that is present; the result has one entry for
  each identity key of the records and no other, and the entry of a key is the last
  record in decode order that bears it.
\<close>

theorem loadMetrics_last_write_wins:
  assumes "readFile filename = Inr data" "unmarshal data = Inr metrics"
  shows "\<exists>metricMap. loadMetrics readFile unmarshal filename = Inr metricMap
           \<and> metricMap = indexMetrics metrics
           \<and> wf_snapshot metricMap
           \<and> fst ` set metricMap = metricKey ` set metrics
           \<and> (\<forall>k. map_of metricMap k = find (\<lambda>r. metricKey r = k) (rev metrics))
           \<and> indexMetrics (metrics @ [m]) = AList.update (metricKey m) m (indexMetrics metrics)"
proof -
  have "map_of (indexMetrics metrics) k = find (\<lambda>r. metricKey r = k) (rev metrics)" for k
    unfolding indexMetrics_def by (simp add: map_of_foldl_index split: option.splits)
  moreover have "wf_snapshot (indexMetrics metrics)"
    unfolding indexMetrics_def wf_snapshot_def by (rule distinct_foldl_index) simp
  moreover have "fst ` set (indexMetrics metrics) = metricKey ` set metrics"
    unfolding indexMetrics_def by (simp add: keys_foldl_index)
  moreover have "indexMetrics (metrics @ [m]) = AList.update (metricKey m) m (indexMetrics metrics)"
    by (simp add: indexMetrics_def)
  ultimately show ?thesis
    using assms by (simp add: loadMetrics_def)
qed

text \<open>C8 at a concrete input.\<close>

theorem loadMetrics_last_write_wins_witness:
  "(\<lambda>_. Inr ''yaml'') ''old.yaml'' = (Inr ''yaml'' :: error + string)
   \<and> (\<lambda>_. Inr decodedExample) ''yaml'' = (Inr decodedExample :: error + Metric list)
   \<and> loadMetrics (\<lambda>_. Inr ''yaml'') (\<lambda>_. Inr decodedExample) ''old.yaml'' = Inr indexedExample
   \<and> map_of indexedExample ''foo'' = Some (fooMetric\<lparr>Type := ''gauge''\<rparr>)
   \<and> find (\<lambda>r. metricKey r = ''foo'') (rev decodedExample) = Some (fooMetric\<lparr>Type := ''gauge''\<rparr>)"
proof -
  let ?r = "\<lambda>_::string. (Inr ''yaml'' :: error + string)"
  let ?u = "\<lambda>_::string. (Inr decodedExample :: error + Metric list)"
  have i: "indexMetrics decodedExample = indexedExample"
    by (simp add: indexMetrics_def metricKey_def fooMetric_def decodedExample_def
        indexedExample_def)
  have l: "map_of indexedExample ''foo'' = Some (fooMetric\<lparr>Type := ''gauge''\<rparr>)"
    by (simp add: indexedExample_def)
  have "?r ''old.yaml'' = Inr ''yaml''" and "?u ''yaml'' = Inr decodedExample"
    by simp_all
  from loadMetrics_last_write_wins [of ?r "''old.yaml''" "''yaml''" ?u decodedExample, OF this]
  obtain metricMap where m: "loadMetrics ?r ?u ''old.yaml'' = Inr metricMap"
    "metricMap = indexMetrics decodedExample"
    "\<forall>k. map_of metricMap k = find (\<lambda>r. metricKey r = k) (rev decodedExample)"
    by blast
  from m(1,2) i have 1: "loadMetrics ?r ?u ''old.yaml'' = Inr indexedExample"
    by (simp only:)
  from m(2,3) i l
  have 2: "find (\<lambda>r. metricKey r = ''foo'') (rev decodedExample) = Some (fooMetric\<lparr>Type := ''gauge''\<rparr>)"
    by (simp only:)
  from 1 2 l show ?thesis by simp
qed

text \<open>
  C6. The comparator of the deprecation version: from empty to non-empty it gives
  \<open>Marked as deprecated in version `new`.\<close>, from non-empty to empty
  \<open>No longer marked as deprecated.\<close>, between two different non-empty versions
  \<open>Deprecated version changed from `old` to `new`.\<close>, and nothing when the two are
  equal; what it gives is part of the change list of the pair.
\<close>

theorem deprecatedChange_cases:
  "(DeprecatedVersion oldMetric = [] \<and> DeprecatedVersion newMetric \<noteq> [] \<longrightarrow>
      deprecatedChange oldMetric newMetric
        = [''Marked as deprecated in version `'' @ DeprecatedVersion newMetric @ ''`.''])
   \<and> (DeprecatedVersion oldMetric \<noteq> [] \<and> DeprecatedVersion newMetric = [] \<longrightarrow>
      deprecatedChange oldMetric newMetric = [''No longer marked as deprecated.''])
   \<and> (DeprecatedVersion oldMetric \<noteq> [] \<and> DeprecatedVersion newMetric \<noteq> []
        \<and> DeprecatedVersion oldMetric \<noteq> DeprecatedVersion newMetric \<longrightarrow>
      deprecatedChange oldMetric newMetric
        = [''Deprecated version changed from `'' @ DeprecatedVersion oldMetric @ ''` to `''
             @ DeprecatedVersion newMetric @ ''`.''])
   \<and> (DeprecatedVersion oldMetric = DeprecatedVersion newMetric \<longrightarrow>
      deprecatedChange oldMetric newMetric = [])
   \<and> set (deprecatedChange oldMetric newMetric) \<subseteq> set (metricChanges oldMetric newMetric)"
  by (auto simp: deprecatedChange_def metricChanges_def)

text \<open>C6 at a concrete input.\<close>

theorem deprecatedChange_cases_witness:
  "deprecatedChange fooMetric (fooMetric\<lparr>DeprecatedVersion := ''1.30''\<rparr>)
     = [''Marked as deprecated in version `1.30`.'']
   \<and> deprecatedChange (fooMetric\<lparr>DeprecatedVersion := ''1.30''\<rparr>) fooMetric
     = [''No longer marked as deprecated.'']
   \<and> deprecatedChange (fooMetric\<lparr>DeprecatedVersion := ''1.30''\<rparr>) (fooMetric\<lparr>DeprecatedVersion := ''1.31''\<rparr>)
     = [''Deprecated version changed from `1.30` to `1.31`.'']
   \<and> deprecatedChange (fooMetric\<lparr>DeprecatedVersion := ''1.30''\<rparr>) (fooMetric\<lparr>DeprecatedVersion := ''1.30''\<rparr>) = []"
  using deprecatedChange_cases [of fooMetric "fooMetric\<lparr>DeprecatedVersion := ''1.30''\<rparr>"]
    deprecatedChange_cases [of "fooMetric\<lparr>DeprecatedVersion := ''1.30''\<rparr>" fooMetric]
    deprecatedChange_cases [of "fooMetric\<lparr>DeprecatedVersion := ''1.30''\<rparr>" "fooMetric\<lparr>DeprecatedVersion := ''1.31''\<rparr>"]
    deprecatedChange_cases [of "fooMetric\<lparr>DeprecatedVersion := ''1.30''\<rparr>" "fooMetric\<lparr>DeprecatedVersion := ''1.30''\<rparr>"]
  by (simp add: fooMetric_def)

text \<open>
  C7. The comparator of the bucket boundaries gives \<open>Buckets changed.\<close> exactly when
  the two lists differ in length or at some index under Go's \<open>==\<close> on \<open>float64\<close>, and
  nothing otherwise; what it gives is part of the change list of the pair. The lists
  \<open>[1, 2, 3]\<close> and \<open>[3, 2, 1]\<close> are reported as changed.
\<close>

theorem bucketsChange_iff:
  "bucketsChange oldMetric newMetric =
     (if length (Buckets oldMetric) \<noteq> length (Buckets newMetric)
         \<or> (\<exists>i < length (Buckets oldMetric).
               \<not> float64_eq (Buckets oldMetric ! i) (Buckets newMetric ! i))
      then [''Buckets changed.''] else [])
   \<and> set (bucketsChange oldMetric newMetric) \<subseteq> set (metricChanges oldMetric newMetric)
   \<and> (Buckets oldMetric = [f64_1, f64_2, f64_3] \<and> Buckets newMetric = [f64_3, f64_2, f64_1]
        \<longrightarrow> bucketsChange oldMetric newMetric = [''Buckets changed.''])"
proof -
  have "bucketsChange oldMetric newMetric = [''Buckets changed.'']"
    if "Buckets oldMetric = [f64_1, f64_2, f64_3]" "Buckets newMetric = [f64_3, f64_2, f64_1]"
    using that
    by (simp add: bucketsChange_def equalFloat64Slices_def float64_eq_def isNaN_def isZero_def f64_1_def f64_3_def f64_2_def)
  then show ?thesis
    by (auto simp: bucketsChange_def equalFloat64Slices_iff list_all2_conv_all_nth metricChanges_def)
qed

text \<open>C7 at a concrete input.\<close>

theorem bucketsChange_iff_witness:
  "Buckets (fooMetric\<lparr>Buckets := [f64_1, f64_2, f64_3]\<rparr>) = [f64_1, f64_2, f64_3]
   \<and> Buckets (fooMetric\<lparr>Buckets := [f64_3, f64_2, f64_1]\<rparr>) = [f64_3, f64_2, f64_1]
   \<and> bucketsChange (fooMetric\<lparr>Buckets := [f64_1, f64_2, f64_3]\<rparr>) (fooMetric\<lparr>Buckets := [f64_3, f64_2, f64_1]\<rparr>)
       = [''Buckets changed.'']"
  using bucketsChange_iff [of "fooMetric\<lparr>Buckets := [f64_1, f64_2, f64_3]\<rparr>" "fooMetric\<lparr>Buckets := [f64_3, f64_2, f64_1]\<rparr>",
      THEN conjunct2, THEN conjunct2]
  by simp




text \<open>
  C1. Partition. For snapshots \<open>old\<close> and \<open>new\<close> and every key \<open>k\<close>, the diffs of
  \<open>compareMetrics old new\<close> whose key is \<open>k\<close> are: exactly one Added diff holding only
  the new record when \<open>k\<close> is in \<open>new\<close> alone; exactly one Removed diff holding only
  the old record when \<open>k\<close> is in \<open>old\<close> alone; when \<open>k\<close> is in both, exactly one
  Updated diff holding both records and the non-empty list of change descriptions, or
  none when the comparators give no description; and none for a key in neither.
\<close>

theorem compareMetrics_partition:
  assumes "wf_snapshot old" "wf_snapshot new"
  shows "(\<forall>k b. map_of old k = None \<and> map_of new k = Some b \<longrightarrow>
            filter (\<lambda>d. Key d = k) (compareMetrics old new)
              = [\<lparr>Key = k, Kind = Added, OldMetric = None, NewMetric = Some b, Changes = []\<rparr>])
       \<and> (\<forall>k a. map_of old k = Some a \<and> map_of new k = None \<longrightarrow>
            filter (\<lambda>d. Key d = k) (compareMetrics old new)
              = [\<lparr>Key = k, Kind = Removed, OldMetric = Some a, NewMetric = None, Changes = []\<rparr>])
       \<and> (\<forall>k a b. map_of old k = Some a \<and> map_of new k = Some b \<and> metricChanges a b \<noteq> [] \<longrightarrow>
            filter (\<lambda>d. Key d = k) (compareMetrics old new)
              = [\<lparr>Key = k, Kind = Updated, OldMetric = Some a, NewMetric = Some b,
                   Changes = metricChanges a b\<rparr>])
       \<and> (\<forall>k a b. map_of old k = Some a \<and> map_of new k = Some b \<and> metricChanges a b = [] \<longrightarrow>
            filter (\<lambda>d. Key d = k) (compareMetrics old new) = [])
       \<and> (\<forall>k. map_of old k = None \<and> map_of new k = None \<longrightarrow>
            filter (\<lambda>d. Key d = k) (compareMetrics old new) = [])"
  by (simp add: compareMetrics_at_key [OF assms] diffAt_def)

text \<open>C1 at a concrete input.\<close>

theorem compareMetrics_partition_witness:
  "wf_snapshot oldExample \<and> wf_snapshot newExample
   \<and> map_of oldExample ''bar'' = None
   \<and> map_of newExample ''bar'' = Some (fooMetric\<lparr>Name := ''bar'', Help := ''y''\<rparr>)
   \<and> filter (\<lambda>d. Key d = ''bar'') (compareMetrics oldExample newExample)
       = [\<lparr>Key = ''bar'', Kind = Added, OldMetric = None,
            NewMetric = Some (fooMetric\<lparr>Name := ''bar'', Help := ''y''\<rparr>), Changes = []\<rparr>]
   \<and> map_of oldExample ''baz'' = Some (fooMetric\<lparr>Name := ''baz''\<rparr>) \<and> map_of newExample ''baz'' = None
   \<and> filter (\<lambda>d. Key d = ''baz'') (compareMetrics oldExample newExample)
       = [\<lparr>Key = ''baz'', Kind = Removed, OldMetric = Some (fooMetric\<lparr>Name := ''baz''\<rparr>),
            NewMetric = None, Changes = []\<rparr>]
   \<and> map_of oldExample ''foo'' = Some fooMetric \<and> map_of newExample ''foo'' = Some (fooMetric\<lparr>Type := ''gauge''\<rparr>)
   \<and> metricChanges fooMetric (fooMetric\<lparr>Type := ''gauge''\<rparr>) = [''Type changed from `counter` to `gauge`.'']
   \<and> filter (\<lambda>d. Key d = ''foo'') (compareMetrics oldExample newExample)
       = [\<lparr>Key = ''foo'', Kind = Updated, OldMetric = Some fooMetric,
            NewMetric = Some (fooMetric\<lparr>Type := ''gauge''\<rparr>),
            Changes = [''Type changed from `counter` to `gauge`.'']\<rparr>]
   \<and> map_of oldExample ''same'' = Some (fooMetric\<lparr>Name := ''same''\<rparr>)
   \<and> map_of newExample ''same'' = Some (fooMetric\<lparr>Name := ''same''\<rparr>)
   \<and> metricChanges (fooMetric\<lparr>Name := ''same''\<rparr>) (fooMetric\<lparr>Name := ''same''\<rparr>) = []
   \<and> filter (\<lambda>d. Key d = ''same'') (compareMetrics oldExample newExample) = []
   \<and> map_of oldExample ''none'' = None \<and> map_of newExample ''none'' = None
   \<and> filter (\<lambda>d. Key d = ''none'') (compareMetrics oldExample newExample) = []"
proof -
  have wo: "wf_snapshot oldExample" and wn: "wf_snapshot newExample"
    by (simp_all add: wf_snapshot_def oldExample_def newExample_def)
  note t = compareMetrics_partition [OF wo wn]
  note t2 = t [THEN conjunct2]
  note t3 = t2 [THEN conjunct2]
  note t4 = t3 [THEN conjunct2]
  have bar: "map_of oldExample ''bar'' = None \<and> map_of newExample ''bar'' = Some (fooMetric\<lparr>Name := ''bar'', Help := ''y''\<rparr>)"
    by (simp add: oldExample_def newExample_def)
  have baz: "map_of oldExample ''baz'' = Some (fooMetric\<lparr>Name := ''baz''\<rparr>) \<and> map_of newExample ''baz'' = None"
    by (simp add: oldExample_def newExample_def)
  have c: "metricChanges fooMetric (fooMetric\<lparr>Type := ''gauge''\<rparr>) = [''Type changed from `counter` to `gauge`.'']"
    by (simp add: diff_eval fooMetric_def)
  have foo: "map_of oldExample ''foo'' = Some fooMetric \<and> map_of newExample ''foo'' = Some (fooMetric\<lparr>Type := ''gauge''\<rparr>)
      \<and> metricChanges fooMetric (fooMetric\<lparr>Type := ''gauge''\<rparr>) \<noteq> []"
    by (simp add: oldExample_def newExample_def c)
  have s: "metricChanges (fooMetric\<lparr>Name := ''same''\<rparr>) (fooMetric\<lparr>Name := ''same''\<rparr>) = []"
    by (simp add: diff_eval fooMetric_def)
  have same: "map_of oldExample ''same'' = Some (fooMetric\<lparr>Name := ''same''\<rparr>)
      \<and> map_of newExample ''same'' = Some (fooMetric\<lparr>Name := ''same''\<rparr>)
      \<and> metricChanges (fooMetric\<lparr>Name := ''same''\<rparr>) (fooMetric\<lparr>Name := ''same''\<rparr>) = []"
    by (simp add: oldExample_def newExample_def s)
  have none: "map_of oldExample ''none'' = None \<and> map_of newExample ''none'' = None"
    by (simp add: oldExample_def newExample_def)
  note r1 = t [THEN conjunct1, rule_format, OF bar]
  note r2 = t2 [THEN conjunct1, rule_format, OF baz]
  note r3 = t3 [THEN conjunct1, rule_format, OF foo, unfolded c]
  note r4 = t4 [THEN conjunct1, rule_format, OF same]
  note r5 = t4 [THEN conjunct2, rule_format, OF none]
  from wo wn bar baz foo c same none r1 r2 r3 r4 r5 show ?thesis
    by (simp only: simp_thms)
qed

text \<open>
  C5. The diffs are to come out sorted by identity key, no two with the same key, in
  an order that does not depend on the order in which the maps are visited. The
  current differ, keyed by the rendered string, does so
  (\<open>compareMetrics_sorted_deterministic\<close>). The differ of the older \<open>main.go\<close>, whose
  comment gives consistent output as the purpose of its sort, does not: it keys the
  maps by the triple and sorts by the rendered key, and two triples can render alike.
  The records with namespace \<open>a\<close>, name \<open>b\<close> and with subsystem \<open>a\<close>, name \<open>b\<close> are
  indexed under two keys that both render \<open>a_b\<close>; both are reported with that key,
  and in the order in which the map happened to be visited.
\<close>

theorem compareMetrics0_order_dependent:
  "keyNs \<noteq> keySub
   \<and> MetricKey_String keyNs = ''a_b'' \<and> MetricKey_String keySub = ''a_b''
   \<and> indexMetrics0 [metricNs, metricSub] = [(keyNs, metricNs), (keySub, metricSub)]
   \<and> mset [(keySub, metricSub), (keyNs, metricNs)] = mset [(keyNs, metricNs), (keySub, metricSub)]
   \<and> compareMetrics0 [] [(keyNs, metricNs), (keySub, metricSub)] = [diffNs, diffSub]
   \<and> compareMetrics0 [] [(keySub, metricSub), (keyNs, metricNs)] = [diffSub, diffNs]
   \<and> compareMetrics0 [] [(keyNs, metricNs), (keySub, metricSub)]
       \<noteq> compareMetrics0 [] [(keySub, metricSub), (keyNs, metricNs)]
   \<and> map (\<lambda>d. MetricKey_String (Key0 d)) [diffNs, diffSub] = [''a_b'', ''a_b'']
   \<and> sorted (map (\<lambda>d. MetricKey_String (Key0 d)) [diffNs, diffSub])
   \<and> sorted (map (\<lambda>d. MetricKey_String (Key0 d)) [diffSub, diffNs])"
proof -
  have k: "keyNs \<noteq> keySub"
    by (simp add: keyNs_def keySub_def)
  have r: "MetricKey_String keyNs = ''a_b''" "MetricKey_String keySub = ''a_b''"
    by (simp_all add: keyNs_def keySub_def MetricKey_String_def)
  have i: "indexMetrics0 [metricNs, metricSub] = [(keyNs, metricNs), (keySub, metricSub)]"
    by (simp add: indexMetrics0_def metricNs_def metricSub_def keyNs_def keySub_def)
  have m: "mset [(keySub, metricSub), (keyNs, metricNs)] = mset [(keyNs, metricNs), (keySub, metricSub)]"
    by simp
  have a: "compareMetrics0 [] [(keyNs, metricNs), (keySub, metricSub)] = [diffNs, diffSub]"
    by (simp add: compareMetrics0_def addedOrModifiedDiff0_def diffNs_def diffSub_def r)
  have b: "compareMetrics0 [] [(keySub, metricSub), (keyNs, metricNs)] = [diffSub, diffNs]"
    by (simp add: compareMetrics0_def addedOrModifiedDiff0_def diffNs_def diffSub_def r)
  have d: "diffNs \<noteq> diffSub"
    using k by (simp add: diffNs_def diffSub_def)
  have s: "map (\<lambda>d. MetricKey_String (Key0 d)) [diffNs, diffSub] = [''a_b'', ''a_b'']"
    "map (\<lambda>d. MetricKey_String (Key0 d)) [diffSub, diffNs] = [''a_b'', ''a_b'']"
    by (simp_all add: diffNs_def diffSub_def r)
  from k r i m a b d s show ?thesis
    by simp
qed

text \<open>
  C9. The keys classified Added by \<open>compareMetrics A B\<close> are the keys classified
  Removed by \<open>compareMetrics B A\<close>, and the keys classified Removed by
  \<open>compareMetrics A B\<close> are those classified Added by \<open>compareMetrics B A\<close>.
\<close>

theorem added_removed_symmetry:
  "keys_of Added (compareMetrics A B) = keys_of Removed (compareMetrics B A)
   \<and> keys_of Removed (compareMetrics A B) = keys_of Added (compareMetrics B A)"
  by (simp add: Added_keys Removed_keys)

text \<open>
  C4, amended. For a snapshot \<open>S\<close>, \<open>compareMetrics S S\<close> is empty exactly when no
  bucket boundary of a record of \<open>S\<close> is a NaN. A NaN boundary differs from itself
  under Go's \<open>!=\<close>: each record of \<open>S\<close> with a NaN among its bucket boundaries is
  reported by exactly one diff, Updated, holding the record as the old and as the new
  one, with the one description \<open>Buckets changed.\<close>; every other record, and every key
  that is not in \<open>S\<close>, has no diff.
\<close>

theorem compareMetrics_self:
  assumes "wf_snapshot S"
  shows "(compareMetrics S S = [] \<longleftrightarrow> (\<forall>(k, m) \<in> set S. \<forall>x \<in> set (Buckets m). \<not> isNaN x))
       \<and> (\<forall>k m. map_of S k = Some m \<and> (\<exists>x \<in> set (Buckets m). isNaN x) \<longrightarrow>
            filter (\<lambda>d. Key d = k) (compareMetrics S S)
              = [\<lparr>Key = k, Kind = Updated, OldMetric = Some m, NewMetric = Some m,
                   Changes = [''Buckets changed.'']\<rparr>])
       \<and> (\<forall>k m. map_of S k = Some m \<and> (\<forall>x \<in> set (Buckets m). \<not> isNaN x) \<longrightarrow>
            filter (\<lambda>d. Key d = k) (compareMetrics S S) = [])
       \<and> (\<forall>k. map_of S k = None \<longrightarrow> filter (\<lambda>d. Key d = k) (compareMetrics S S) = [])"
proof -
  have a: "addedOrUpdatedDiff S (k, m) = [] \<longleftrightarrow> (\<forall>x \<in> set (Buckets m). \<not> isNaN x)"
    if "(k, m) \<in> set S" for k m
    using map_of_entry [OF assms that]
    by (simp add: addedOrUpdatedDiff_def Let_def metricChanges_self)
  have r: "removedDiff S (k, m) = []" if "(k, m) \<in> set S" for k m
    using map_of_entry [OF assms that] by (simp add: removedDiff_def)
  have "collectDiffs S S = [] \<longleftrightarrow> (\<forall>(k, m) \<in> set S. addedOrUpdatedDiff S (k, m) = [])"
    using r by (auto simp: collectDiffs_concat)
  also have "\<dots> \<longleftrightarrow> (\<forall>(k, m) \<in> set S. \<forall>x \<in> set (Buckets m). \<not> isNaN x)"
    using a by auto
  finally have 1: "compareMetrics S S = []
      \<longleftrightarrow> (\<forall>(k, m) \<in> set S. \<forall>x \<in> set (Buckets m). \<not> isNaN x)"
    by (simp add: compareMetrics_Nil_iff)
  have 2: "filter (\<lambda>d. Key d = k) (compareMetrics S S)
      = [\<lparr>Key = k, Kind = Updated, OldMetric = Some m, NewMetric = Some m,
           Changes = [''Buckets changed.'']\<rparr>]"
    if "map_of S k = Some m" "\<exists>x \<in> set (Buckets m). isNaN x" for k m
    using that by (simp add: compareMetrics_at_key [OF assms assms] diffAt_def metricChanges_self_NaN)
  have 3: "filter (\<lambda>d. Key d = k) (compareMetrics S S) = []"
    if "map_of S k = Some m" "\<forall>x \<in> set (Buckets m). \<not> isNaN x" for k m
    using that by (simp add: compareMetrics_at_key [OF assms assms] diffAt_def metricChanges_self)
  have 4: "filter (\<lambda>d. Key d = k) (compareMetrics S S) = []" if "map_of S k = None" for k
    using that by (simp add: compareMetrics_at_key [OF assms assms] diffAt_def)
  from 1 2 3 4 show ?thesis by blast
qed

text \<open>C4 at a concrete input.\<close>

theorem compareMetrics_self_witness:
  "wf_snapshot cleanSnapshot \<and> \<not> isNaN f64_1 \<and> \<not> isNaN f64_2
   \<and> compareMetrics cleanSnapshot cleanSnapshot = []
   \<and> wf_snapshot mixedSnapshot
   \<and> map_of mixedSnapshot ''foo'' = Some nanMetric
   \<and> Buckets nanMetric = [f64_1, f64_NaN] \<and> isNaN f64_NaN
   \<and> filter (\<lambda>d. Key d = ''foo'') (compareMetrics mixedSnapshot mixedSnapshot)
       = [\<lparr>Key = ''foo'', Kind = Updated, OldMetric = Some nanMetric, NewMetric = Some nanMetric,
            Changes = [''Buckets changed.'']\<rparr>]
   \<and> map_of mixedSnapshot ''bar'' = Some barBuckets
   \<and> Buckets barBuckets = [f64_1, f64_2]
   \<and> filter (\<lambda>d. Key d = ''bar'') (compareMetrics mixedSnapshot mixedSnapshot) = []
   \<and> map_of mixedSnapshot ''baz'' = None
   \<and> filter (\<lambda>d. Key d = ''baz'') (compareMetrics mixedSnapshot mixedSnapshot) = []"
proof -
  have w: "wf_snapshot cleanSnapshot"
    by (simp add: wf_snapshot_def cleanSnapshot_def)
  have f: "\<not> isNaN f64_1" "\<not> isNaN f64_2"
    by (simp_all add: isNaN_def f64_1_def f64_2_def)
  have g: "isNaN f64_NaN"
    by (simp add: isNaN_def f64_NaN_def)
  have n: "\<forall>(k, m) \<in> set cleanSnapshot. \<forall>x \<in> set (Buckets m). \<not> isNaN x"
    using f by (simp add: cleanSnapshot_def fooMetric_def)
  note c = compareMetrics_self [OF w, THEN conjunct1, THEN iffD2, OF n]
  have wm: "wf_snapshot mixedSnapshot"
    by (simp add: wf_snapshot_def mixedSnapshot_def)
  note t = compareMetrics_self [OF wm, THEN conjunct2]
  have foo: "map_of mixedSnapshot ''foo'' = Some nanMetric"
    and bar: "map_of mixedSnapshot ''bar'' = Some barBuckets"
    and baz: "map_of mixedSnapshot ''baz'' = None"
    by (simp_all add: mixedSnapshot_def)
  have bn: "Buckets nanMetric = [f64_1, f64_NaN]" and bb: "Buckets barBuckets = [f64_1, f64_2]"
    by (simp_all add: nanMetric_def barBuckets_def)
  have hn: "map_of mixedSnapshot ''foo'' = Some nanMetric \<and> (\<exists>x \<in> set (Buckets nanMetric). isNaN x)"
    using foo g by (simp add: bn)
  have hb: "map_of mixedSnapshot ''bar'' = Some barBuckets
      \<and> (\<forall>x \<in> set (Buckets barBuckets). \<not> isNaN x)"
    using bar f by (simp add: bb)
  note r1 = t [THEN conjunct1, rule_format, OF hn]
  note r2 = t [THEN conjunct2, THEN conjunct1, rule_format, OF hb]
  note r3 = t [THEN conjunct2, THEN conjunct2, rule_format, OF baz]
  from w f g c wm foo bar baz bn bb r1 r2 r3 show ?thesis
    by (simp only: simp_thms)
qed

text \<open>
  The claim as stated fails on a snapshot with a NaN bucket boundary.
\<close>

theorem compareMetrics_self_counterexample:
  "indexMetrics [nanMetric] = nanSnapshot \<and> wf_snapshot nanSnapshot
   \<and> compareMetrics nanSnapshot nanSnapshot
       = [\<lparr>Key = ''foo'', Kind = Updated, OldMetric = Some nanMetric, NewMetric = Some nanMetric,
            Changes = [''Buckets changed.'']\<rparr>]
   \<and> compareMetrics nanSnapshot nanSnapshot \<noteq> []"
  by (simp add: wf_snapshot_def nanSnapshot_def nanMetric_def diff_eval fooMetric_def
      f64_1_def f64_NaN_def indexMetrics_def metricKey_def)

text \<open>
  C10, amended. For a matched pair of records that agree on help, type, stability
  level, deprecation version, age-buckets, buffer capacity, max-age, constant labels,
  label names and bucket boundaries, with no NaN among the bucket boundaries,
  \<open>compareMetrics\<close> emits no diff for their key, whatever the two objectives
  mappings are; and the change list of a pair does not depend on the objectives.
\<close>

theorem objectives_invisible:
  assumes "wf_snapshot old" "wf_snapshot new" "map_of old k = Some a" "map_of new k = Some b"
    and "Help a = Help b" "Type a = Type b" "StabilityLevel a = StabilityLevel b"
    "DeprecatedVersion a = DeprecatedVersion b" "AgeBuckets a = AgeBuckets b"
    "BufCap a = BufCap b" "MaxAge a = MaxAge b" "ConstLabels a = ConstLabels b"
    "Labels a = Labels b" "Buckets a = Buckets b"
    and "\<forall>x \<in> set (Buckets a). \<not> isNaN x"
  shows "filter (\<lambda>d. Key d = k) (compareMetrics old new) = []
       \<and> (\<forall>x y. metricChanges (a\<lparr>Objectives := x\<rparr>) (b\<lparr>Objectives := y\<rparr>) = metricChanges a b)"
proof -
  have "metricChanges a b = bucketsChange a b"
    using assms(5-13) by (rule metricChanges_agree)
  also have "\<dots> = []"
    using assms(14,15) by (simp add: bucketsChange_def equalFloat64Slices_refl_iff)
  finally have "diffAt old new k = []"
    using assms(3,4) by (simp add: diffAt_def)
  then show ?thesis
    by (simp add: compareMetrics_at_key [OF assms(1,2)] metricChanges_Objectives)
qed

text \<open>C10 at a concrete input.\<close>

theorem objectives_invisible_witness:
  "wf_snapshot [(''foo'', summaryA)] \<and> wf_snapshot [(''foo'', summaryB)]
   \<and> map_of [(''foo'', summaryA)] ''foo'' = Some summaryA
   \<and> map_of [(''foo'', summaryB)] ''foo'' = Some summaryB
   \<and> Help summaryA = Help summaryB \<and> Type summaryA = Type summaryB
   \<and> StabilityLevel summaryA = StabilityLevel summaryB
   \<and> DeprecatedVersion summaryA = DeprecatedVersion summaryB
   \<and> AgeBuckets summaryA = AgeBuckets summaryB
   \<and> BufCap summaryA = BufCap summaryB \<and> MaxAge summaryA = MaxAge summaryB
   \<and> ConstLabels summaryA = ConstLabels summaryB \<and> Labels summaryA = Labels summaryB
   \<and> Buckets summaryA = Buckets summaryB \<and> Buckets summaryA = [f64_1, f64_2]
   \<and> \<not> isNaN f64_1 \<and> \<not> isNaN f64_2
   \<and> Objectives summaryA \<noteq> Objectives summaryB
   \<and> filter (\<lambda>d. Key d = ''foo'') (compareMetrics [(''foo'', summaryA)] [(''foo'', summaryB)]) = []"
proof -
  have f: "\<not> isNaN f64_1" "\<not> isNaN f64_2"
    by (simp_all add: isNaN_def f64_1_def f64_2_def)
  have b: "Buckets summaryA = [f64_1, f64_2]"
    by (simp add: summaryA_def)
  have h: "wf_snapshot [(''foo'', summaryA)]" "wf_snapshot [(''foo'', summaryB)]"
    "map_of [(''foo'', summaryA)] ''foo'' = Some summaryA"
    "map_of [(''foo'', summaryB)] ''foo'' = Some summaryB"
    "Help summaryA = Help summaryB" "Type summaryA = Type summaryB"
    "StabilityLevel summaryA = StabilityLevel summaryB"
    "DeprecatedVersion summaryA = DeprecatedVersion summaryB"
    "AgeBuckets summaryA = AgeBuckets summaryB"
    "BufCap summaryA = BufCap summaryB" "MaxAge summaryA = MaxAge summaryB"
    "ConstLabels summaryA = ConstLabels summaryB" "Labels summaryA = Labels summaryB"
    "Buckets summaryA = Buckets summaryB"
    by (simp_all add: wf_snapshot_def summaryA_def summaryB_def)
  have n: "\<forall>x \<in> set (Buckets summaryA). \<not> isNaN x"
    using f by (simp add: b)
  have d: "Objectives summaryA \<noteq> Objectives summaryB"
    by (simp add: summaryA_def summaryB_def f64_2_def f64_3_def)
  note t = objectives_invisible [OF h n, THEN conjunct1]
  from h b f d t show ?thesis
    by (simp only: simp_thms)
qed

text \<open>
  The claim as stated fails on a pair with a NaN bucket boundary.
\<close>

theorem objectives_invisible_counterexample:
  "indexMetrics [nanMetric] = [(''foo'', nanMetric)]
   \<and> indexMetrics [nanMetricObj] = [(''foo'', nanMetricObj)]
   \<and> map_of [(''foo'', nanMetric)] ''foo'' = Some nanMetric \<and> map_of [(''foo'', nanMetricObj)] ''foo'' = Some nanMetricObj
   \<and> Help nanMetric = Help nanMetricObj \<and> Type nanMetric = Type nanMetricObj
   \<and> StabilityLevel nanMetric = StabilityLevel nanMetricObj
   \<and> DeprecatedVersion nanMetric = DeprecatedVersion nanMetricObj \<and> AgeBuckets nanMetric = AgeBuckets nanMetricObj
   \<and> BufCap nanMetric = BufCap nanMetricObj \<and> MaxAge nanMetric = MaxAge nanMetricObj
   \<and> ConstLabels nanMetric = ConstLabels nanMetricObj \<and> Labels nanMetric = Labels nanMetricObj
   \<and> Buckets nanMetric = Buckets nanMetricObj
   \<and> Objectives nanMetric \<noteq> Objectives nanMetricObj
   \<and> compareMetrics [(''foo'', nanMetric)] [(''foo'', nanMetricObj)]
       = [\<lparr>Key = ''foo'', Kind = Updated, OldMetric = Some nanMetric, NewMetric = Some nanMetricObj,
            Changes = [''Buckets changed.'']\<rparr>]
   \<and> compareMetrics [(''foo'', nanMetric)] [(''foo'', nanMetricObj)] \<noteq> []"
  by (simp add: nanMetricObj_def nanMetric_def diff_eval fooMetric_def f64_1_def f64_NaN_def
      indexMetrics_def metricKey_def)

end
